theory Spec2Isabelle
  imports Main "HOL-Library.Sublist"
begin

section \<open>Text\<close>

text \<open>
  Python's \<open>str\<close> is a sequence of code points. The model writes text as \<open>string\<close> and
  reads each \<open>char\<close> as one code point below 256; the white-space, line-boundary and
  letter-case tables below are the members of Python's tables in that range.
  \<open>x in s\<close> on strings is \<open>sublist x s\<close>, and \<open>s.startswith(x)\<close> is \<open>prefix x s\<close>.
\<close>

definition isspace :: "char \<Rightarrow> bool" where
  \<comment> \<open>\<open>str.isspace\<close> on one code point: TAB, LF, VT, FF, CR, FS, GS, RS, US, SPACE, NEL, NBSP.\<close>
  "isspace c =
     (let n = (of_char c :: nat)
      in (9 \<le> n \<and> n \<le> 13) \<or> (28 \<le> n \<and> n \<le> 32) \<or> n = 133 \<or> n = 160)"

definition strip :: "string \<Rightarrow> string" where
  \<comment> \<open>\<open>str.strip()\<close>: leading and trailing white space removed.\<close>
  "strip s = rev (dropWhile isspace (rev (dropWhile isspace s)))"

definition lower_char :: "char \<Rightarrow> char" where
  \<comment> \<open>A to Z, and the Latin-1 capitals 0xC0 to 0xDE other than the multiplication sign 0xD7.\<close>
  "lower_char c =
     (let n = (of_char c :: nat)
      in if (65 \<le> n \<and> n \<le> 90) \<or> (192 \<le> n \<and> n \<le> 222 \<and> n \<noteq> 215)
         then char_of (n + 32) else c)"

definition lower :: "string \<Rightarrow> string" where
  "lower s = map lower_char s"

definition upper_char :: "char \<Rightarrow> char" where
  \<comment> \<open>\<open>str.upper()\<close> is applied to the resource names \<open>scripts\<close> and \<open>assets\<close> only;
      the model upper-cases the letters a to z.\<close>
  "upper_char c =
     (let n = (of_char c :: nat)
      in if 97 \<le> n \<and> n \<le> 122 then char_of (n - 32) else c)"

definition upper :: "string \<Rightarrow> string" where
  "upper s = map upper_char s"

definition por :: "string \<Rightarrow> string \<Rightarrow> string" where
  \<comment> \<open>Python's \<open>a or b\<close> on strings: the empty string is false.\<close>
  "por a b = (if a \<noteq> [] then a else b)"

definition truthy :: "string \<Rightarrow> bool" where
  \<comment> \<open>\<open>if v:\<close> on a string: the empty string is false. A variable that is not set
      yields \<open>None\<close>, which is false too.\<close>
  "truthy v = (v \<noteq> [])"

fun join :: "string \<Rightarrow> string list \<Rightarrow> string" where
  \<comment> \<open>\<open>sep.join(xs)\<close>\<close>
  "join sep [] = []"
| "join sep [x] = x"
| "join sep (x # y # ys) = x @ sep @ join sep (y # ys)"

definition sq :: string where
  \<comment> \<open>The single quote.\<close>
  "sq = [CHR 0x27]"

definition LF :: char where "LF = CHR 0x0A"

definition CR :: char where "CR = CHR 0x0D"

definition is_linebreak :: "char \<Rightarrow> bool" where
  \<comment> \<open>The line boundaries of \<open>str.splitlines\<close>: LF, VT, FF, CR, FS, GS, RS, NEL.\<close>
  "is_linebreak c =
     (let n = (of_char c :: nat)
      in (10 \<le> n \<and> n \<le> 13) \<or> (28 \<le> n \<and> n \<le> 30) \<or> n = 133)"

fun splitlines_from :: "string \<Rightarrow> string \<Rightarrow> string list" where
  \<comment> \<open>The first argument is the line read so far. CR LF is one boundary; a boundary at
      the very end of the text opens no further line.\<close>
  "splitlines_from cur [] = (if cur = [] then [] else [cur])"
| "splitlines_from cur [c] = (if is_linebreak c then [cur] else [cur @ [c] ])"
| "splitlines_from cur (c # d # ds) =
     (if c = CR \<and> d = LF then cur # splitlines_from [] ds
      else if is_linebreak c then cur # splitlines_from [] (d # ds)
      else splitlines_from (cur @ [c]) (d # ds))"

definition splitlines :: "string \<Rightarrow> string list" where
  "splitlines s = splitlines_from [] s"

fun universal_newlines :: "string \<Rightarrow> string" where
  \<comment> \<open>Reading in text mode: CR LF and a lone CR arrive as LF.\<close>
  "universal_newlines [] = []"
| "universal_newlines [c] = (if c = CR then [LF] else [c])"
| "universal_newlines (c # d # ds) =
     (if c = CR \<and> d = LF then LF # universal_newlines ds
      else if c = CR then LF # universal_newlines (d # ds)
      else c # universal_newlines (d # ds))"

definition split_once :: "char \<Rightarrow> string \<Rightarrow> string \<times> string" where
  \<comment> \<open>\<open>s.split(sep, 1)\<close> for a text that holds the separator.\<close>
  "split_once sep s = (takeWhile (\<lambda>c. c \<noteq> sep) s, drop 1 (dropWhile (\<lambda>c. c \<noteq> sep) s))"

fun str_nat :: "nat \<Rightarrow> string" where
  \<comment> \<open>A natural number in decimal, as an f-string formats it.\<close>
  "str_nat n = (if n < 10 then [char_of (48 + n)] else str_nat (n div 10) @ [char_of (48 + n mod 10)])"

declare str_nat.simps [simp del]

section \<open>Paths, file system, processes\<close>

type_synonym path = string

definition PathOf :: "string \<Rightarrow> path" where
  \<comment> \<open>\<open>Path(s)\<close>: the empty text is the current directory. Redundant separators are left
      as they are: the file system is asked about the text of the path.\<close>
  "PathOf s = (if s = [] then ''.'' else s)"

definition joinpath :: "path \<Rightarrow> string \<Rightarrow> path" where
  \<comment> \<open>\<open>p / name\<close> for a relative \<open>name\<close>.\<close>
  "joinpath p n = p @ ''/'' @ n"

definition basename :: "path \<Rightarrow> string" where
  \<comment> \<open>\<open>p.name\<close>: the text after the last separator.\<close>
  "basename p = rev (takeWhile (\<lambda>c. c \<noteq> CHR ''/'') (rev p))"

text \<open>A path names a regular file with its text, a directory, or nothing.\<close>

datatype node = File string | Dir

type_synonym filesystem = "path \<rightharpoonup> node"

definition exists :: "filesystem \<Rightarrow> path \<Rightarrow> bool" where
  "exists fs p = (fs p \<noteq> None)"

definition is_file :: "filesystem \<Rightarrow> path \<Rightarrow> bool" where
  "is_file fs p = (case fs p of Some (File c) \<Rightarrow> True | _ \<Rightarrow> False)"

definition is_dir :: "filesystem \<Rightarrow> path \<Rightarrow> bool" where
  "is_dir fs p = (case fs p of Some Dir \<Rightarrow> True | _ \<Rightarrow> False)"

text \<open>
  What a finished child process hands back (\<open>subprocess.CompletedProcess\<close>), or the
  \<open>OSError\<close> that \<open>subprocess.run\<close> raises when the program cannot be started.
\<close>

datatype completed = Completed (returncode: int) (stdout: string) (stderr: string)

datatype spawned = Ran completed | SpawnError string

text \<open>The file operations that the operating system may refuse.\<close>

datatype os_op =
    Unlink path
  | Copy path path
  | Mkdir path
  | WriteText path
  | ReadText path
  | Stat path

text \<open>
  The surroundings of one invocation. \<open>environ\<close> is \<open>os.environ\<close>; \<open>expanduser\<close> is
  \<open>Path.expanduser\<close>, which raises \<open>RuntimeError\<close> (\<open>Inl\<close>, with the text of the error)
  when the home directory behind a tilde cannot be determined; \<open>repo_root\<close> is \<open>Path(__file__).resolve().parents[2]\<close>;
  \<open>home\<close> is \<open>Path.home()\<close>; \<open>executable\<close> is \<open>sys.executable\<close>. \<open>spawn\<close> stands for
  the external programs: given the command line, the environment of the child and the
  file system, it yields the outcome and the file system the child leaves behind.
  \<open>os_error\<close> gives the text of the \<open>OSError\<close> with which the operating system refuses
  an operation for a reason the file system of the model does not show (permissions,
  a full disk, a missing ancestor that is a regular file).
\<close>

record system =
  environ :: "string \<rightharpoonup> string"
  expanduser :: "path \<Rightarrow> string + path"
  repo_root :: path
  home :: path
  getuid :: nat
  executable :: string
  spawn :: "string list \<Rightarrow> (string \<rightharpoonup> string) \<Rightarrow> filesystem \<Rightarrow> spawned \<times> filesystem"
  os_error :: "os_op \<Rightarrow> string option"

text \<open>
  What one invocation leaves behind: the file system, the texts printed to the output and
  error streams (one entry for each \<open>print\<close>), and the command lines started, in order.
  Confirmations that open with a pictograph are named; plain text is \<open>Plain\<close>.
\<close>

datatype line =
    Plain string
  | HelpText
  | LocationUpdated string string
  | ConfigFile path
  | WallpaperSetAuto
  | WallpaperSet string
  | MorningApplied
  | EveningApplied
  | WallpaperUpdated string path
  | TimesExecuted
  | AgentsRemoved
  | UsageError

record state =
  files :: filesystem
  out :: "line list"
  err :: "line list"
  calls :: "string list list"

definition initial :: "filesystem \<Rightarrow> state" where
  "initial fs = \<lparr>files = fs, out = [], err = [], calls = []\<rparr>"

text \<open>How a handler ends: it returns a code, or \<open>SystemExit\<close> or another exception leaves it.\<close>

datatype outcome = Return int | SystemExit int | Raised string

definition print_out :: "line \<Rightarrow> state \<Rightarrow> state" where
  "print_out l s = s\<lparr>out := out s @ [l]\<rparr>"

definition print_err :: "line \<Rightarrow> state \<Rightarrow> state" where
  "print_err l s = s\<lparr>err := err s @ [l]\<rparr>"

text \<open>The two command-line front ends of the repository.\<close>

datatype app = Riset | Sunproject

fun APP_NAME :: "app \<Rightarrow> string" where
  "APP_NAME Riset = ''riset''"
| "APP_NAME Sunproject = ''sunproject''"

fun ENV_PREFIX :: "app \<Rightarrow> string" where
  "ENV_PREFIX Riset = ''RISET''"
| "ENV_PREFIX Sunproject = ''SUNPROJECT''"

definition CONFIG_PATH :: "app \<Rightarrow> system \<Rightarrow> path" where
  "CONFIG_PATH a sys =
     joinpath (joinpath (joinpath (home sys) ''.config'') (APP_NAME a)) ''config.toml''"

definition DAY_ASSET :: string where "DAY_ASSET = ''morning.jpg''"

definition NIGHT_ASSET :: string where "NIGHT_ASSET = ''evening.jpg''"

section \<open>Paths and discovery helpers\<close>

definition homebrew_share_candidates :: "app \<Rightarrow> system \<Rightarrow> path list" where
  "homebrew_share_candidates a sys =
     (let hb_prefix = environ sys ''HOMEBREW_PREFIX''
      in (case hb_prefix of
            None \<Rightarrow> []
          | Some hb \<Rightarrow>
              if truthy hb
              then [joinpath (joinpath (PathOf hb) ''share'') (APP_NAME a)]
              else [])
         @ [joinpath (PathOf ''/opt/homebrew/share'') (APP_NAME a),
            joinpath (PathOf ''/usr/local/share'') (APP_NAME a)])"

definition env_dir_key :: "app \<Rightarrow> string \<Rightarrow> string" where
  "env_dir_key a name = ENV_PREFIX a @ ''_'' @ upper name @ ''_DIR''"

definition path_exists :: "system \<Rightarrow> filesystem \<Rightarrow> path \<Rightarrow> string + bool" where
  \<comment> \<open>\<open>p.exists()\<close> with its failure: an \<open>OSError\<close> other than the absence of the path
      (a name that is too long, a directory that may not be searched) leaves the call;
      \<open>Inl\<close> carries its text.\<close>
  "path_exists sys fs p =
     (case os_error sys (Stat p) of
        Some e \<Rightarrow> Inl e
      | None \<Rightarrow> Inr (exists fs p))"

fun first_existing :: "system \<Rightarrow> filesystem \<Rightarrow> string \<Rightarrow> path list \<Rightarrow> string + path option" where
  \<comment> \<open>The loop over the share candidates.\<close>
  "first_existing sys fs name [] = Inr None"
| "first_existing sys fs name (base # bases) =
     (let p = joinpath base name
      in case path_exists sys fs p of
           Inl e \<Rightarrow> Inl e
         | Inr found \<Rightarrow>
             if found then Inr (Some p) else first_existing sys fs name bases)"

definition find_dir :: "app \<Rightarrow> system \<Rightarrow> filesystem \<Rightarrow> string \<Rightarrow> string + path option" where
  \<comment> \<open>\<open>Inl\<close> carries the text of an exception that leaves the function: the
      \<open>RuntimeError\<close> of \<open>expanduser\<close>, or the \<open>OSError\<close> of an existence check.\<close>
  "find_dir a sys fs name =
     (let env_val = environ sys (env_dir_key a name);
          from_env = (case env_val of
                        None \<Rightarrow> Inr None
                      | Some v \<Rightarrow>
                          if truthy v
                          then (case expanduser sys (PathOf v) of
                                  Inl e \<Rightarrow> Inl e
                                | Inr p \<Rightarrow>
                                    (case path_exists sys fs p of
                                       Inl e \<Rightarrow> Inl e
                                     | Inr found \<Rightarrow> if found then Inr (Some p) else Inr None))
                          else Inr None)
      in case from_env of
           Inl e \<Rightarrow> Inl e
         | Inr (Some p) \<Rightarrow> Inr (Some p)
         | Inr None \<Rightarrow>
             (let p = joinpath (repo_root sys) name
              in case path_exists sys fs p of
                   Inl e \<Rightarrow> Inl e
                 | Inr found \<Rightarrow>
                     if found then Inr (Some p)
                     else first_existing sys fs name (homebrew_share_candidates a sys)))"

definition scripts_not_found :: "app \<Rightarrow> string" where
  \<comment> \<open>The message of the \<open>FileNotFoundError\<close> that \<open>_scripts_dir\<close> raises.\<close>
  "scripts_not_found a =
     ''Could not find '' @ sq @ ''scripts'' @ sq @ '' directory. '' @
     ''Set ENV '' @ sq @ ENV_PREFIX a @ ''_SCRIPTS_DIR'' @ sq @
     '' or install scripts via Homebrew pkgshare.''"

definition scripts_dir :: "app \<Rightarrow> system \<Rightarrow> filesystem \<Rightarrow> string + path" where
  \<comment> \<open>\<open>Inl\<close> carries the message of the exception raised, by \<open>_find_dir\<close> or here.\<close>
  "scripts_dir a sys fs =
     (case find_dir a sys fs ''scripts'' of
        Inl e \<Rightarrow> Inl e
      | Inr None \<Rightarrow> Inl (scripts_not_found a)
      | Inr (Some p) \<Rightarrow> Inr p)"

definition assets_dir :: "app \<Rightarrow> system \<Rightarrow> filesystem \<Rightarrow> string + path option" where
  "assets_dir a sys fs = find_dir a sys fs ''assets''"

definition launch_agent_paths :: "system \<Rightarrow> path list" where
  "launch_agent_paths sys =
     (let base = joinpath (joinpath (home sys) ''Library'') ''LaunchAgents''
      in [joinpath base ''com.riset.sunrise.plist'',
          joinpath base ''com.riset.sunset.plist''])"

section \<open>Simple config (key=value lines)\<close>

text \<open>
  A \<open>dict\<close> keeps its keys in the order of their first insertion: an association list
  with one entry for each key.
\<close>

type_synonym config = "(string \<times> string) list"

fun dict_set :: "config \<Rightarrow> string \<Rightarrow> string \<Rightarrow> config" where
  \<comment> \<open>\<open>data[k] = v\<close>\<close>
  "dict_set [] k v = [(k, v)]"
| "dict_set ((k', v') # rest) k v =
     (if k' = k then (k, v) # rest else (k', v') # dict_set rest k v)"

definition dict_get :: "config \<Rightarrow> string \<Rightarrow> string option" where
  "dict_get cfg k = map_of cfg k"

definition errno_text :: "string \<Rightarrow> path \<Rightarrow> string" where
  \<comment> \<open>\<open>str(e)\<close> for an \<open>OSError\<close> on a path.\<close>
  "errno_text what p = what @ '': '' @ sq @ p @ sq"

definition mkdir_parents :: "system \<Rightarrow> filesystem \<Rightarrow> path \<Rightarrow> string + filesystem" where
  \<comment> \<open>\<open>p.mkdir(parents=True, exist_ok=True)\<close>: a directory is left alone, a regular file
      in its place is an error, and otherwise the directory is made. The model records the
      directory itself; the ancestors made on the way are read by no function here.\<close>
  "mkdir_parents sys fs p =
     (case os_error sys (Mkdir p) of
        Some e \<Rightarrow> Inl e
      | None \<Rightarrow>
          (case fs p of
             Some Dir \<Rightarrow> Inr fs
           | Some (File c) \<Rightarrow> Inl (errno_text ''[Errno 17] File exists'' p)
           | None \<Rightarrow> Inr (fs(p \<mapsto> Dir))))"

definition read_text :: "system \<Rightarrow> filesystem \<Rightarrow> path \<Rightarrow> string + string" where
  "read_text sys fs p =
     (case os_error sys (ReadText p) of
        Some e \<Rightarrow> Inl e
      | None \<Rightarrow>
          (case fs p of
             Some (File c) \<Rightarrow> Inr (universal_newlines c)
           | Some Dir \<Rightarrow> Inl (errno_text ''[Errno 21] Is a directory'' p)
           | None \<Rightarrow> Inl (errno_text ''[Errno 2] No such file or directory'' p)))"

definition write_text :: "system \<Rightarrow> filesystem \<Rightarrow> path \<Rightarrow> string \<Rightarrow> string + filesystem" where
  "write_text sys fs p text =
     (case os_error sys (WriteText p) of
        Some e \<Rightarrow> Inl e
      | None \<Rightarrow>
          (case fs p of
             Some Dir \<Rightarrow> Inl (errno_text ''[Errno 21] Is a directory'' p)
           | _ \<Rightarrow> Inr (fs(p \<mapsto> File text))))"

definition ensure_config_dir :: "app \<Rightarrow> system \<Rightarrow> filesystem \<Rightarrow> string + filesystem" where
  "ensure_config_dir a sys fs =
     mkdir_parents sys fs (joinpath (joinpath (home sys) ''.config'') (APP_NAME a))"

fun read_lines :: "string list \<Rightarrow> config \<Rightarrow> config" where
  \<comment> \<open>The loop of \<open>_read_config\<close> over the lines of the file.\<close>
  "read_lines [] data = data"
| "read_lines (l # rest) data =
     (let line = strip l
      in if line = [] \<or> prefix ''#'' line \<or> CHR ''='' \<notin> set line
         then read_lines rest data
         else (let (k, v) = split_once (CHR ''='') line
               in read_lines rest (dict_set data (strip k) (strip v))))"

definition read_config :: "app \<Rightarrow> system \<Rightarrow> filesystem \<Rightarrow> string + config" where
  "read_config a sys fs =
     (if \<not> exists fs (CONFIG_PATH a sys) then Inr []
      else (case read_text sys fs (CONFIG_PATH a sys) of
              Inl e \<Rightarrow> Inl e
            | Inr text \<Rightarrow> Inr (read_lines (splitlines text) [])))"

definition config_lines :: "app \<Rightarrow> config \<Rightarrow> string list" where
  "config_lines a cfg = (''# '' @ APP_NAME a @ '' config'') # map (\<lambda>(k, v). k @ ''='' @ v) cfg"

definition config_text :: "app \<Rightarrow> config \<Rightarrow> string" where
  "config_text a cfg = join [LF] (config_lines a cfg) @ [LF]"

definition write_config ::
    "app \<Rightarrow> system \<Rightarrow> config \<Rightarrow> filesystem \<Rightarrow> string option \<times> filesystem" where
  \<comment> \<open>The first component is the text of the exception raised, if any.\<close>
  "write_config a sys cfg fs =
     (case ensure_config_dir a sys fs of
        Inl e \<Rightarrow> (Some e, fs)
      | Inr fs' \<Rightarrow>
          (case write_text sys fs' (CONFIG_PATH a sys) (config_text a cfg) of
             Inl e \<Rightarrow> (Some e, fs')
           | Inr fs'' \<Rightarrow> (None, fs'')))"

section \<open>Subprocess helpers\<close>

definition run :: "system \<Rightarrow> string list \<Rightarrow> state \<Rightarrow> spawned \<times> state" where
  "run sys cmd s =
     (let (r, fs') = spawn sys cmd (environ sys) (files s)
      in (r, s\<lparr>files := fs', calls := calls s @ [cmd]\<rparr>))"

definition run_or_die :: "system \<Rightarrow> string list \<Rightarrow> state \<Rightarrow> (outcome + string) \<times> state" where
  \<comment> \<open>\<open>Inr\<close> is the trimmed output returned; \<open>Inl\<close> is how the call is left otherwise.\<close>
  "run_or_die sys cmd s =
     (case run sys cmd s of
        (SpawnError e, s') \<Rightarrow> (Inl (Raised e), s')
      | (Ran res, s') \<Rightarrow>
          if returncode res \<noteq> 0
          then (let msg = por (strip (stderr res))
                            (por (strip (stdout res)) (''Command failed: '' @ join '' '' cmd))
                in (Inl (SystemExit (if returncode res \<noteq> 0 then returncode res else 1)),
                    print_err (Plain msg) s'))
          else (Inr (strip (stdout res)), s'))"

section \<open>Command handlers\<close>

definition cmd_help :: "app \<Rightarrow> state \<Rightarrow> outcome \<times> state" where
  "cmd_help a s =
     (case a of
        Riset \<Rightarrow> (Return 0, print_out HelpText s)
      | Sunproject \<Rightarrow>
          (Return 0,
           print_out (Plain ''For usage, run:  sunproject -h   or   sunproject <command> -h'') s))"

definition cmd_location_change ::
    "app \<Rightarrow> system \<Rightarrow> string \<Rightarrow> string \<Rightarrow> state \<Rightarrow> outcome \<times> state" where
  \<comment> \<open>\<open>lat\<close> and \<open>lon\<close> are the texts \<open>str(args.lat)\<close> and \<open>str(args.lon)\<close>.\<close>
  "cmd_location_change a sys lat lon s =
     (case read_config a sys (files s) of
        Inl e \<Rightarrow> (Raised e, s)
      | Inr cfg \<Rightarrow>
          (let cfg1 = dict_set cfg ''lat'' lat;
               cfg2 = dict_set cfg1 ''lon'' lon
           in case write_config a sys cfg2 (files s) of
                (Some e, fs') \<Rightarrow> (Raised e, s\<lparr>files := fs'\<rparr>)
              | (None, fs') \<Rightarrow>
                  (Return 0,
                   print_out (ConfigFile (CONFIG_PATH a sys))
                     (print_out (LocationUpdated lat lon) (s\<lparr>files := fs'\<rparr>)))))"

definition run_mode_script ::
    "system \<Rightarrow> path \<Rightarrow> string \<Rightarrow> state \<Rightarrow> outcome \<times> state" where
  \<comment> \<open>The part of \<open>cmd_background_change\<close> below the comment ``Explicit day/night''.\<close>
  "run_mode_script sys sdir mode s =
     (let chosen = (if mode = ''day'' then Some (joinpath sdir ''wallpaper_morning.sh'')
                    else if mode = ''night'' then Some (joinpath sdir ''wallpaper_evening.sh'')
                    else None)
      in case chosen of
           None \<Rightarrow>
             (Return 2, print_err (Plain ''Invalid --mode. Must be one of: day | night | auto'') s)
         | Some script \<Rightarrow>
             if \<not> exists (files s) script
             then (Return 2, print_err (Plain (''Expected script not found: '' @ script)) s)
             else (case run_or_die sys [script] s of
                     (Inl ex, s') \<Rightarrow> (ex, s')
                   | (Inr x, s') \<Rightarrow> (Return 0, print_out (WallpaperSet mode) s')))"

definition cmd_background_change ::
    "app \<Rightarrow> system \<Rightarrow> string \<Rightarrow> state \<Rightarrow> outcome \<times> state" where
  "cmd_background_change a sys mode s =
     (case scripts_dir a sys (files s) of
        Inl e \<Rightarrow> (Raised e, s)
      | Inr sdir \<Rightarrow>
          if mode = ''auto''
          then (let times_script = joinpath sdir ''wallpaper_times.sh''
                in if exists (files s) times_script
                   then (case run_or_die sys [times_script] s of
                           (Inl ex, s') \<Rightarrow> (ex, s')
                         | (Inr x, s') \<Rightarrow> (Return 0, print_out WallpaperSetAuto s'))
                   else (let compute_script = joinpath sdir ''compute_mode.sh''
                         in if exists (files s) compute_script
                            then (case run_or_die sys [compute_script] s of
                                    (Inl ex, s') \<Rightarrow> (ex, s')
                                  | (Inr x, s') \<Rightarrow>
                                      (let mode' = lower (strip x)
                                       in if mode' \<noteq> ''day'' \<and> mode' \<noteq> ''night''
                                          then (Return 2,
                                                print_err (Plain (''Invalid mode from compute_mode.sh: '' @ mode')) s')
                                          else run_mode_script sys sdir mode' s'))
                            else (Return 2,
                                  print_err (Plain (''For --mode auto, expected '' @ sq @ ''wallpaper_times.sh'' @ sq @
                                                    '' or '' @ sq @ ''compute_mode.sh'' @ sq @ '' not found.'')) s)))
          else run_mode_script sys sdir mode s)"

definition run_fixed_script ::
    "app \<Rightarrow> system \<Rightarrow> string \<Rightarrow> line \<Rightarrow> state \<Rightarrow> outcome \<times> state" where
  \<comment> \<open>The common body of \<open>cmd_morning\<close> and \<open>cmd_evening\<close>.\<close>
  "run_fixed_script a sys script_name conf s =
     (case scripts_dir a sys (files s) of
        Inl e \<Rightarrow> (Raised e, s)
      | Inr sdir \<Rightarrow>
          (let script = joinpath sdir script_name
           in if \<not> exists (files s) script
              then (Return 2, print_err (Plain (''Expected script not found: '' @ script)) s)
              else (case run_or_die sys [script] s of
                      (Inl ex, s') \<Rightarrow> (ex, s')
                    | (Inr x, s') \<Rightarrow> (Return 0, print_out conf s'))))"

definition cmd_morning :: "app \<Rightarrow> system \<Rightarrow> state \<Rightarrow> outcome \<times> state" where
  "cmd_morning a sys s = run_fixed_script a sys ''wallpaper_morning.sh'' MorningApplied s"

definition cmd_evening :: "app \<Rightarrow> system \<Rightarrow> state \<Rightarrow> outcome \<times> state" where
  "cmd_evening a sys s = run_fixed_script a sys ''wallpaper_evening.sh'' EveningApplied s"

definition parent :: "path \<Rightarrow> path" where
  \<comment> \<open>\<open>p.parent\<close>: the text before the last separator.\<close>
  "parent p = rev (drop 1 (dropWhile (\<lambda>c. c \<noteq> CHR ''/'') (rev p)))"

definition copy2 :: "system \<Rightarrow> filesystem \<Rightarrow> path \<Rightarrow> path \<Rightarrow> string + filesystem" where
  \<comment> \<open>\<open>shutil.copy2\<close>: into a directory the file goes under its own name. Time stamps and
      permissions are not part of the model.\<close>
  "copy2 sys fs src dst =
     (let target = (if is_dir fs dst then joinpath dst (basename src) else dst)
      in case os_error sys (Copy src dst) of
           Some e \<Rightarrow> Inl e
         | None \<Rightarrow>
             (case fs src of
                None \<Rightarrow> Inl (errno_text ''[Errno 2] No such file or directory'' src)
              | Some Dir \<Rightarrow> Inl (errno_text ''[Errno 21] Is a directory'' src)
              | Some (File c) \<Rightarrow>
                  (case fs target of
                     Some Dir \<Rightarrow> Inl (errno_text ''[Errno 21] Is a directory'' target)
                   | _ \<Rightarrow> Inr (fs(target \<mapsto> File c)))))"

definition replace_wallpaper_image ::
    "system \<Rightarrow> string \<Rightarrow> string \<Rightarrow> string \<Rightarrow> state \<Rightarrow> outcome \<times> state" where
  "replace_wallpaper_image sys src dest_filename label s =
     (case assets_dir Riset sys (files s) of
        Inl e \<Rightarrow> (Raised e, s)
      | Inr None \<Rightarrow>
          (Return 2,
           print_err (Plain (''Could not find assets directory. '' @
                             ''Set RISET_ASSETS_DIR or ensure assets are installed.'')) s)
      | Inr (Some adir) \<Rightarrow>
          (case expanduser sys (PathOf src) of
             Inl e \<Rightarrow> (Raised e, s)
           | Inr src_path \<Rightarrow>
               (case path_exists sys (files s) src_path of
                  Inl e \<Rightarrow> (Raised e, s)
                | Inr found \<Rightarrow>
                    if \<not> found
                    then (Return 2, print_err (Plain (''Image not found: '' @ src_path)) s)
                    else if \<not> is_file (files s) src_path
                    then (Return 2, print_err (Plain (''Expected a file but got: '' @ src_path)) s)
                    else (let dest_path = joinpath adir dest_filename
                          in case mkdir_parents sys (files s) (parent dest_path) of
                               Inl e \<Rightarrow> (Raised e, s)
                             | Inr fs1 \<Rightarrow>
                                 (case copy2 sys fs1 src_path dest_path of
                                    Inl e \<Rightarrow>
                                      (Return 2,
                                       print_err (Plain (''Failed to copy image: '' @ e))
                                         (s\<lparr>files := fs1\<rparr>))
                                  | Inr fs2 \<Rightarrow>
                                      (Return 0,
                                       print_out (WallpaperUpdated label dest_path)
                                         (s\<lparr>files := fs2\<rparr>)))))))"

definition cmd_day_image :: "system \<Rightarrow> string \<Rightarrow> state \<Rightarrow> outcome \<times> state" where
  "cmd_day_image sys img s = replace_wallpaper_image sys img DAY_ASSET ''Day'' s"

definition cmd_night_image :: "system \<Rightarrow> string \<Rightarrow> state \<Rightarrow> outcome \<times> state" where
  "cmd_night_image sys img s = replace_wallpaper_image sys img NIGHT_ASSET ''Night'' s"

definition setdefault :: "(string \<rightharpoonup> string) \<Rightarrow> string \<Rightarrow> string \<Rightarrow> (string \<rightharpoonup> string)" where
  \<comment> \<open>\<open>env.setdefault(k, v)\<close>\<close>
  "setdefault env k v = (case env k of None \<Rightarrow> env(k \<mapsto> v) | Some old \<Rightarrow> env)"

definition post_install_env :: "app \<Rightarrow> system \<Rightarrow> config \<Rightarrow> (string \<rightharpoonup> string)" where
  \<comment> \<open>The environment that \<open>cmd_post_install\<close> hands to the script. Only \<open>riset\<close> adds
      the interpreter path.\<close>
  "post_install_env a sys cfg =
     (let env0 = environ sys;
          env1 = (case a of
                    Riset \<Rightarrow> setdefault env0 ''RISET_PYTHON_BIN'' (executable sys)
                  | Sunproject \<Rightarrow> env0);
          env2 = (case dict_get cfg ''lat'' of
                    Some v \<Rightarrow> setdefault env1 (ENV_PREFIX a @ ''_LAT'') v
                  | None \<Rightarrow> env1);
          env3 = (case dict_get cfg ''lon'' of
                    Some v \<Rightarrow> setdefault env2 (ENV_PREFIX a @ ''_LON'') v
                  | None \<Rightarrow> env2)
      in env3)"

definition cmd_post_install :: "app \<Rightarrow> system \<Rightarrow> state \<Rightarrow> outcome \<times> state" where
  "cmd_post_install a sys s =
     (case scripts_dir a sys (files s) of
        Inl e \<Rightarrow> (Raised e, s)
      | Inr sdir \<Rightarrow>
          (let times_script = joinpath sdir ''wallpaper_times.sh''
           in if \<not> exists (files s) times_script
              then (Return 2, print_err (Plain (''Expected script not found: '' @ times_script)) s)
              else (case read_config a sys (files s) of
                      Inl e \<Rightarrow> (Raised e, s)
                    | Inr cfg \<Rightarrow>
                        (let cmd = [''bash'', times_script];
                             (r, fs') = spawn sys cmd (post_install_env a sys cfg) (files s);
                             s1 = s\<lparr>files := fs', calls := calls s @ [cmd]\<rparr>
                         in case r of
                              SpawnError e \<Rightarrow> (Raised e, s1)
                            | Ran res \<Rightarrow>
                                if returncode res \<noteq> 0
                                then (Return (returncode res),
                                      print_err (Plain (por (strip (stderr res))
                                                         (por (strip (stdout res)) ''wallpaper_times.sh failed''))) s1)
                                else (let s2 = (if truthy (strip (stdout res))
                                                then print_out (Plain (strip (stdout res))) s1 else s1);
                                          s3 = (if truthy (strip (stderr res))
                                                then print_err (Plain (strip (stderr res))) s2 else s2)
                                      in (Return 0, print_out TimesExecuted s3))))))"

definition bootout_message :: "completed \<Rightarrow> string" where
  \<comment> \<open>\<open>msg\<close> in \<open>cmd_cleanup\<close>: the trimmed error text, or else the trimmed output.\<close>
  "bootout_message res =
     (let stderr' = strip (por (stderr res) '''');
          stdout' = strip (por (stdout res) '''')
      in por stderr' stdout')"

definition bootout_error :: "string \<Rightarrow> completed \<Rightarrow> string option" where
  \<comment> \<open>What the loop of \<open>cmd_cleanup\<close> appends to \<open>errors\<close> after \<open>launchctl bootout\<close>.\<close>
  "bootout_error name res =
     (if returncode res \<noteq> 0 \<and> returncode res \<noteq> 36
      then (let msg = bootout_message res
            in if truthy msg \<and> \<not> sublist ''No such process'' msg
                  \<and> \<not> sublist ''No such file or directory'' msg
               then Some (''launchctl bootout '' @ name @ '': '' @ msg)
               else None)
      else None)"

datatype unlinked = Unlinked filesystem | FileNotFound | UnlinkFailed string

definition unlink :: "system \<Rightarrow> filesystem \<Rightarrow> path \<Rightarrow> unlinked" where
  \<comment> \<open>\<open>plist.unlink()\<close>: a directory cannot be unlinked.\<close>
  "unlink sys fs p =
     (case fs p of
        None \<Rightarrow> FileNotFound
      | Some Dir \<Rightarrow> UnlinkFailed (errno_text ''[Errno 1] Operation not permitted'' p)
      | Some (File c) \<Rightarrow>
          (case os_error sys (Unlink p) of
             Some e \<Rightarrow> UnlinkFailed e
           | None \<Rightarrow> Unlinked (fs(p := None))))"

definition bootout_cmd :: "system \<Rightarrow> path \<Rightarrow> string list" where
  "bootout_cmd sys plist = [''launchctl'', ''bootout'', ''gui/'' @ str_nat (getuid sys), plist]"

fun cleanup_loop ::
    "system \<Rightarrow> path list \<Rightarrow> string list \<Rightarrow> state \<Rightarrow> (string + string list) \<times> state" where
  \<comment> \<open>The loop of \<open>cmd_cleanup\<close>; \<open>Inl\<close> is an exception that leaves it.\<close>
  "cleanup_loop sys [] errors s = (Inr errors, s)"
| "cleanup_loop sys (plist # rest) errors s =
     (case run sys (bootout_cmd sys plist) s of
        (SpawnError e, s1) \<Rightarrow> (Inl e, s1)
      | (Ran res, s1) \<Rightarrow>
          (let errors1 = (case bootout_error (basename plist) res of
                            Some m \<Rightarrow> errors @ [m]
                          | None \<Rightarrow> errors)
           in case unlink sys (files s1) plist of
                FileNotFound \<Rightarrow> cleanup_loop sys rest errors1 s1
              | UnlinkFailed e \<Rightarrow>
                  cleanup_loop sys rest (errors1 @ [''Remove '' @ basename plist @ '': '' @ e]) s1
              | Unlinked fs' \<Rightarrow> cleanup_loop sys rest errors1 (s1\<lparr>files := fs'\<rparr>)))"

definition cmd_cleanup :: "system \<Rightarrow> state \<Rightarrow> outcome \<times> state" where
  "cmd_cleanup sys s =
     (case cleanup_loop sys (launch_agent_paths sys) [] s of
        (Inl e, s') \<Rightarrow> (Raised e, s')
      | (Inr errors, s') \<Rightarrow>
          if errors \<noteq> []
          then (Return 1, s'\<lparr>err := err s' @ map Plain errors\<rparr>)
          else (Return 0, print_out AgentsRemoved s'))"

section \<open>Parser and entry point\<close>

text \<open>
  The command line after \<open>argparse\<close> has read it. \<open>registered\<close> tells which command
  lines the parser of each front end accepts; for the others it prints its usage and
  leaves with status 2 before any handler runs.
\<close>

datatype command =
    NoCommand
  | Help
  | LocationChange string string
  | BackgroundChange string
  | PostInstall
  | Cleanup
  | Morning
  | Evening
  | DayImage string
  | NightImage string

fun registered :: "app \<Rightarrow> command \<Rightarrow> bool" where
  "registered a (BackgroundChange mode) = (mode = ''day'' \<or> mode = ''night'' \<or> mode = ''auto'')"
| "registered a Help = True"
| "registered a (LocationChange lat lon) = True"
| "registered a PostInstall = True"
| "registered Riset c = True"
| "registered Sunproject c = False"

fun dispatch :: "app \<Rightarrow> system \<Rightarrow> command \<Rightarrow> state \<Rightarrow> outcome \<times> state" where
  "dispatch a sys NoCommand s = cmd_help a s"
| "dispatch a sys Help s = cmd_help a s"
| "dispatch a sys (LocationChange lat lon) s = cmd_location_change a sys lat lon s"
| "dispatch a sys (BackgroundChange mode) s = cmd_background_change a sys mode s"
| "dispatch a sys PostInstall s = cmd_post_install a sys s"
| "dispatch a sys Cleanup s = cmd_cleanup sys s"
| "dispatch a sys Morning s = cmd_morning a sys s"
| "dispatch a sys Evening s = cmd_evening a sys s"
| "dispatch a sys (DayImage img) s = cmd_day_image sys img s"
| "dispatch a sys (NightImage img) s = cmd_night_image sys img s"

definition main :: "app \<Rightarrow> system \<Rightarrow> command \<Rightarrow> state \<Rightarrow> int \<times> state" where
  "main a sys c s =
     (if \<not> registered a c then (2, print_err UsageError s)
      else (case dispatch a sys c s of
              (Return n, s') \<Rightarrow> (n, s')
            | (SystemExit n, s') \<Rightarrow> (n, s')
            | (Raised e, s') \<Rightarrow> (1, print_err (Plain (''Error: '' @ e)) s')))"


section \<open>The locator as the specification words it\<close>

text \<open>
  The candidates in the specification's order. In \<open>candidates_as_claimed\<close> a variable
  counts as soon as it is set, and the override names a path whether or not its tilde
  can be expanded; in \<open>candidates\<close> a variable counts when it is set to a value other than
  the empty string, and an override whose tilde cannot be expanded leaves no list at all
  (\<open>Inl\<close> carries the text of the error).
\<close>

definition candidates_as_claimed :: "app \<Rightarrow> system \<Rightarrow> string \<Rightarrow> path list" where
  "candidates_as_claimed a sys name =
     (case environ sys (env_dir_key a name) of
        None \<Rightarrow> []
      | Some v \<Rightarrow>
          (case expanduser sys (PathOf v) of Inl e \<Rightarrow> [PathOf v] | Inr p \<Rightarrow> [p]))
     @ [joinpath (repo_root sys) name]
     @ (case environ sys ''HOMEBREW_PREFIX'' of
          None \<Rightarrow> []
        | Some hb \<Rightarrow> [joinpath (joinpath (joinpath (PathOf hb) ''share'') (APP_NAME a)) name])
     @ [joinpath (joinpath ''/opt/homebrew/share'' (APP_NAME a)) name,
        joinpath (joinpath ''/usr/local/share'' (APP_NAME a)) name]"

definition fixed_candidates :: "app \<Rightarrow> system \<Rightarrow> string \<Rightarrow> path list" where
  \<comment> \<open>The candidates after the override.\<close>
  "fixed_candidates a sys name =
     [joinpath (repo_root sys) name]
     @ (case environ sys ''HOMEBREW_PREFIX'' of
          None \<Rightarrow> []
        | Some hb \<Rightarrow>
            if hb \<noteq> []
            then [joinpath (joinpath (joinpath (PathOf hb) ''share'') (APP_NAME a)) name]
            else [])
     @ [joinpath (joinpath ''/opt/homebrew/share'' (APP_NAME a)) name,
        joinpath (joinpath ''/usr/local/share'' (APP_NAME a)) name]"

definition candidates :: "app \<Rightarrow> system \<Rightarrow> string \<Rightarrow> string + path list" where
  "candidates a sys name =
     (case environ sys (env_dir_key a name) of
        None \<Rightarrow> Inr (fixed_candidates a sys name)
      | Some v \<Rightarrow>
          if v \<noteq> []
          then (case expanduser sys (PathOf v) of
                  Inl e \<Rightarrow> Inl e
                | Inr p \<Rightarrow> Inr (p # fixed_candidates a sys name))
          else Inr (fixed_candidates a sys name))"

fun first_found :: "system \<Rightarrow> filesystem \<Rightarrow> path list \<Rightarrow> string + path option" where
  \<comment> \<open>The first candidate that exists; an existence check that raises before one is found
      ends the search with its error.\<close>
  "first_found sys fs [] = Inr None"
| "first_found sys fs (c # cs) =
     (case path_exists sys fs c of
        Inl e \<Rightarrow> Inl e
      | Inr found \<Rightarrow> if found then Inr (Some c) else first_found sys fs cs)"

definition checks_complete :: "system \<Rightarrow> path list \<Rightarrow> bool" where
  \<comment> \<open>No existence check on these paths raises.\<close>
  "checks_complete sys cs = list_all (\<lambda>c. os_error sys (Stat c) = None) cs"

text \<open>The script that enacts a resolved mode, \<open>day\<close> or \<open>night\<close>.\<close>

definition mode_script :: "path \<Rightarrow> string \<Rightarrow> path" where
  "mode_script sdir mode =
     joinpath sdir (if mode = ''day'' then ''wallpaper_morning.sh'' else ''wallpaper_evening.sh'')"

text \<open>The commands that need the scripts directory.\<close>

definition needs_scripts :: "command \<Rightarrow> bool" where
  "needs_scripts c =
     (case c of
        BackgroundChange mode \<Rightarrow> True
      | Morning \<Rightarrow> True
      | Evening \<Rightarrow> True
      | PostInstall \<Rightarrow> True
      | _ \<Rightarrow> False)"

section \<open>The classification of a bootout, in the words of the specification\<close>

definition indicates_absent :: "string \<Rightarrow> bool" where
  \<comment> \<open>The message says that the resource was already absent.\<close>
  "indicates_absent msg =
     (sublist ''No such process'' msg \<or> sublist ''No such file or directory'' msg)"

definition harmless :: "completed \<Rightarrow> bool" where
  \<comment> \<open>Exit code 0, exit code 36, no message at all, or a message of absence.\<close>
  "harmless res =
     (returncode res = 0 \<or> returncode res = 36 \<or> bootout_message res = []
      \<or> indicates_absent (bootout_message res))"



definition after_unlink :: "system \<Rightarrow> filesystem \<Rightarrow> path \<Rightarrow> filesystem" where
  \<comment> \<open>The file system after the attempt to delete a descriptor.\<close>
  "after_unlink sys fs p = (case unlink sys fs p of Unlinked fs' \<Rightarrow> fs' | _ \<Rightarrow> fs)"

definition step_errors :: "system \<Rightarrow> filesystem \<Rightarrow> path \<Rightarrow> completed \<Rightarrow> string list" where
  \<comment> \<open>The errors that one round of the loop of \<open>cmd_cleanup\<close> records.\<close>
  "step_errors sys fs p res =
     (case bootout_error (basename p) res of None \<Rightarrow> [] | Some m \<Rightarrow> [m])
     @ (case unlink sys fs p of
          UnlinkFailed e \<Rightarrow> [''Remove '' @ basename p @ '': '' @ e]
        | _ \<Rightarrow> [])"

section \<open>The line format, in the words of the specification\<close>








section \<open>Sample surroundings\<close>

definition no_spawn :: "string list \<Rightarrow> (string \<rightharpoonup> string) \<Rightarrow> filesystem \<Rightarrow> spawned \<times> filesystem" where
  "no_spawn cmd env fs = (SpawnError ''[Errno 2] No such file or directory'', fs)"

definition sample_expanduser :: "path \<Rightarrow> string + path" where
  \<comment> \<open>Tilde expansion for the user \<open>u\<close>: a lone tilde in front is the home directory,
      the home directory of any other user is unknown, other paths are left alone.\<close>
  "sample_expanduser p =
     (if prefix ''~'' p
      then (if takeWhile (\<lambda>c. c \<noteq> CHR ''/'') p = ''~''
            then Inr (''/Users/u'' @ dropWhile (\<lambda>c. c \<noteq> CHR ''/'') p)
            else Inl ''Could not determine home directory.'')
      else Inr p)"

definition sample_system :: "(string \<rightharpoonup> string) \<Rightarrow> system" where
  \<comment> \<open>A checkout at \<open>/repo\<close>, user 501, no program that can be started, and an operating
      system that refuses nothing.\<close>
  "sample_system env =
     \<lparr>environ = env, expanduser = sample_expanduser, repo_root = ''/repo'',
      home = ''/Users/u'', getuid = 501, executable = ''/usr/bin/python3'',
      spawn = no_spawn, os_error = (\<lambda>x. None)\<rparr>"



text \<open>
  A checkout whose delegate scripts all succeed; \<open>compute_mode.sh\<close> prints the given
  answer. The scripts leave the file system as it is.
\<close>

definition delegates :: "string \<Rightarrow> string list \<Rightarrow> (string \<rightharpoonup> string) \<Rightarrow> filesystem \<Rightarrow> spawned \<times> filesystem" where
  "delegates answer cmd env fs =
     (if cmd = [''/repo/scripts/compute_mode.sh''] then (Ran (Completed 0 answer ''''), fs)
      else if cmd = [''/repo/scripts/wallpaper_times.sh'']
              \<or> cmd = [''/repo/scripts/wallpaper_morning.sh'']
              \<or> cmd = [''/repo/scripts/wallpaper_evening.sh'']
      then (Ran (Completed 0 '''' ''''), fs)
      else no_spawn cmd env fs)"

definition delegate_system :: "string \<Rightarrow> system" where
  "delegate_system answer = (sample_system Map.empty)\<lparr>spawn := delegates answer\<rparr>"

definition all_scripts :: filesystem where
  "all_scripts =
     [''/repo/scripts'' \<mapsto> Dir,
      ''/repo/scripts/wallpaper_times.sh'' \<mapsto> File ''#!/bin/sh'',
      ''/repo/scripts/compute_mode.sh'' \<mapsto> File ''#!/bin/sh'',
      ''/repo/scripts/wallpaper_morning.sh'' \<mapsto> File ''#!/bin/sh'',
      ''/repo/scripts/wallpaper_evening.sh'' \<mapsto> File ''#!/bin/sh'']"

definition split_scripts :: filesystem where
  \<comment> \<open>No unified delegate.\<close>
  "split_scripts =
     [''/repo/scripts'' \<mapsto> Dir,
      ''/repo/scripts/compute_mode.sh'' \<mapsto> File ''#!/bin/sh'',
      ''/repo/scripts/wallpaper_morning.sh'' \<mapsto> File ''#!/bin/sh'',
      ''/repo/scripts/wallpaper_evening.sh'' \<mapsto> File ''#!/bin/sh'']"

definition decision_only :: filesystem where
  \<comment> \<open>The decision delegate without the scripts for the two modes.\<close>
  "decision_only =
     [''/repo/scripts'' \<mapsto> Dir,
      ''/repo/scripts/compute_mode.sh'' \<mapsto> File ''#!/bin/sh'']"

definition assets_only :: filesystem where
  "assets_only = [''/repo/assets'' \<mapsto> Dir, ''/repo/assets/morning.jpg'' \<mapsto> File ''old'']"

text \<open>A system whose \<open>launchctl\<close> always ends the same way and touches no file.\<close>

definition launchctl_says :: "completed \<Rightarrow> system" where
  "launchctl_says res = (sample_system Map.empty)\<lparr>spawn := (\<lambda>cmd env fs. (Ran res, fs))\<rparr>"

definition sunrise_plist :: path where
  "sunrise_plist = ''/Users/u/Library/LaunchAgents/com.riset.sunrise.plist''"

definition sunset_plist :: path where
  "sunset_plist = ''/Users/u/Library/LaunchAgents/com.riset.sunset.plist''"

section \<open>Printing leaves the rest of the state alone\<close>

lemma print_err_sel [simp]:
  "files (print_err l s) = files s" "out (print_err l s) = out s"
  "calls (print_err l s) = calls s" "err (print_err l s) = err s @ [l]"
  by (simp_all add: print_err_def)

lemma print_out_sel [simp]:
  "files (print_out l s) = files s" "out (print_out l s) = out s @ [l]"
  "calls (print_out l s) = calls s" "err (print_out l s) = err s"
  by (simp_all add: print_out_def)

section \<open>The locator: results\<close>

lemma first_existing_found:
  "first_existing sys fs name bases = first_found sys fs (map (\<lambda>b. joinpath b name) bases)"
  by (induction bases) (simp_all add: Let_def split: sum.splits)

lemma find_dir_candidates:
  "find_dir a sys fs name =
     (case candidates a sys name of Inl e \<Rightarrow> Inl e | Inr cs \<Rightarrow> first_found sys fs cs)"
  by (simp add: find_dir_def candidates_def fixed_candidates_def homebrew_share_candidates_def
      first_existing_found truthy_def PathOf_def Let_def split: option.splits sum.splits)

lemma first_found_complete:
  "checks_complete sys cs \<Longrightarrow> first_found sys fs cs = Inr (List.find (exists fs) cs)"
  by (induction cs) (simp_all add: checks_complete_def path_exists_def)

lemma first_found_Some:
  "first_found sys fs cs = Inr (Some p) \<Longrightarrow> p \<in> set cs \<and> exists fs p"
  by (induction cs) (auto simp: path_exists_def split: option.splits if_splits)

text \<open>
  C3, as amended. For every resource name the candidates are, in this fixed order: the
  path named by the override variable, tilde expanded, when that variable is set to a
  text other than the empty one; the path below the install root; the share path below
  \<open>HOMEBREW_PREFIX\<close> when that variable is set to a text other than the empty one; the
  share path below \<open>/opt/homebrew\<close>; the share path below \<open>/usr/local\<close>. When the tilde of
  the override cannot be expanded the locator raises that error. Otherwise it checks the
  candidates in order and returns the first that exists, raising the error of an
  existence check that fails before one is found. So when the expansion succeeds and the
  existence checks complete, it returns the first existing candidate, and nothing exactly
  when none of them exists.
\<close>

theorem find_dir_first_existing_candidate:
  "find_dir a sys fs name =
     (case candidates a sys name of Inl e \<Rightarrow> Inl e | Inr cs \<Rightarrow> first_found sys fs cs)
   \<and> (\<forall>cs. candidates a sys name = Inr cs \<and> checks_complete sys cs \<longrightarrow>
          find_dir a sys fs name = Inr (List.find (exists fs) cs)
          \<and> (find_dir a sys fs name = Inr None) = (\<not> list_ex (exists fs) cs))"
proof -
  have eq: "find_dir a sys fs name =
     (case candidates a sys name of Inl e \<Rightarrow> Inl e | Inr cs \<Rightarrow> first_found sys fs cs)"
    by (rule find_dir_candidates)
  have "find_dir a sys fs name = Inr (List.find (exists fs) cs)
          \<and> (find_dir a sys fs name = Inr None) = (\<not> list_ex (exists fs) cs)"
    if "candidates a sys name = Inr cs" "checks_complete sys cs" for cs
  proof -
    from that have f: "find_dir a sys fs name = Inr (List.find (exists fs) cs)"
      by (simp add: eq first_found_complete)
    have "(List.find (exists fs) cs = None) = (\<not> list_ex (exists fs) cs)"
      by (auto simp: find_None_iff list_ex_iff)
    with f show ?thesis by simp
  qed
  with eq show ?thesis by blast
qed

theorem find_dir_first_existing_candidate_witness:
  "candidates Riset
      (sample_system [''RISET_SCRIPTS_DIR'' \<mapsto> ''~/scripts'', ''HOMEBREW_PREFIX'' \<mapsto> ''/hb''])
      ''scripts''
     = Inr [''/Users/u/scripts'', ''/repo/scripts'', ''/hb/share/riset/scripts'',
            ''/opt/homebrew/share/riset/scripts'', ''/usr/local/share/riset/scripts'']
   \<and> find_dir Riset
        (sample_system [''RISET_SCRIPTS_DIR'' \<mapsto> ''~/scripts'', ''HOMEBREW_PREFIX'' \<mapsto> ''/hb''])
        [''/hb/share/riset/scripts'' \<mapsto> Dir, ''/usr/local/share/riset/scripts'' \<mapsto> Dir]
        ''scripts''
     = Inr (Some ''/hb/share/riset/scripts'')"
proof -
  let ?sys = "sample_system [''RISET_SCRIPTS_DIR'' \<mapsto> ''~/scripts'', ''HOMEBREW_PREFIX'' \<mapsto> ''/hb'']"
  let ?fs = "[''/hb/share/riset/scripts'' \<mapsto> Dir, ''/usr/local/share/riset/scripts'' \<mapsto> Dir]"
  let ?cs = "[''/Users/u/scripts'', ''/repo/scripts'', ''/hb/share/riset/scripts'',
              ''/opt/homebrew/share/riset/scripts'', ''/usr/local/share/riset/scripts'']"
  have c: "candidates Riset ?sys ''scripts'' = Inr ?cs"
    by code_simp
  have k: "checks_complete ?sys ?cs"
    by (simp add: checks_complete_def sample_system_def)
  have f: "List.find (exists ?fs) ?cs = Some ''/hb/share/riset/scripts''"
    by code_simp
  from find_dir_first_existing_candidate [of Riset ?sys ?fs "''scripts''"] c k
  have "find_dir Riset ?sys ?fs ''scripts'' = Inr (List.find (exists ?fs) ?cs)"
    by blast
  with c f show ?thesis by simp
qed

text \<open>
  C3 as the claim words it fails in two ways. Where a variable is set to the empty text:
  with the override variable empty, the path it names is the current directory, which
  exists, yet the locator goes on to the path below the install root; with
  \<open>HOMEBREW_PREFIX\<close> empty, the share path below it is relative to the current directory
  and exists, yet the locator finds nothing. And where the override names the home
  directory of an unknown user: the locator raises an error, though the directory below
  the install root exists.
\<close>

theorem find_dir_empty_override_counterexample:
  "find_dir Riset (sample_system [''RISET_SCRIPTS_DIR'' \<mapsto> [] ])
     [''.'' \<mapsto> Dir, ''/repo/scripts'' \<mapsto> Dir] ''scripts'' = Inr (Some ''/repo/scripts'')
   \<and> List.find (exists [''.'' \<mapsto> Dir, ''/repo/scripts'' \<mapsto> Dir])
       (candidates_as_claimed Riset (sample_system [''RISET_SCRIPTS_DIR'' \<mapsto> [] ]) ''scripts'')
     = Some ''.''
   \<and> find_dir Riset (sample_system [''HOMEBREW_PREFIX'' \<mapsto> [] ])
       [''./share/riset/scripts'' \<mapsto> Dir] ''scripts'' = Inr None
   \<and> List.find (exists [''./share/riset/scripts'' \<mapsto> Dir])
       (candidates_as_claimed Riset (sample_system [''HOMEBREW_PREFIX'' \<mapsto> [] ]) ''scripts'')
     = Some ''./share/riset/scripts''
   \<and> find_dir Riset (sample_system [''RISET_SCRIPTS_DIR'' \<mapsto> ''~nosuchuser/x''])
       [''/repo/scripts'' \<mapsto> Dir] ''scripts'' = Inl ''Could not determine home directory.''
   \<and> List.find (exists [''/repo/scripts'' \<mapsto> Dir])
       (candidates_as_claimed Riset (sample_system [''RISET_SCRIPTS_DIR'' \<mapsto> ''~nosuchuser/x''])
          ''scripts'')
     = Some ''/repo/scripts''"
  by code_simp

text \<open>
  C8, as amended. Whenever the locator returns a path, that path exists at resolution
  time, as a directory or as a regular file.
\<close>

theorem find_dir_result_exists:
  "find_dir a sys fs name = Inr (Some p) \<Longrightarrow> exists fs p"
  unfolding find_dir_candidates
  by (cases "candidates a sys name") (auto dest: first_found_Some)

theorem find_dir_result_exists_witness:
  "find_dir Riset (sample_system Map.empty) [''/repo/scripts'' \<mapsto> Dir] ''scripts''
     = Inr (Some ''/repo/scripts'')
   \<and> exists [''/repo/scripts'' \<mapsto> Dir] ''/repo/scripts''"
proof -
  have h: "find_dir Riset (sample_system Map.empty) [''/repo/scripts'' \<mapsto> Dir] ''scripts''
             = Inr (Some ''/repo/scripts'')"
    by code_simp
  show ?thesis using h find_dir_result_exists [OF h] by (rule conjI)
qed

text \<open>
  C8 as the claim words it fails: an override variable that names a regular file makes
  the locator return that file, which is no directory.
\<close>

theorem find_dir_regular_file_counterexample:
  "find_dir Riset (sample_system [''RISET_SCRIPTS_DIR'' \<mapsto> ''/tmp/notes.txt''])
     [''/tmp/notes.txt'' \<mapsto> File ''x''] ''scripts'' = Inr (Some ''/tmp/notes.txt'')
   \<and> \<not> is_dir [''/tmp/notes.txt'' \<mapsto> File ''x''] ''/tmp/notes.txt''"
  by code_simp

section \<open>The environment of the post-install script\<close>


text \<open>
  Once the script is found and the configuration read, \<open>post_install\<close> starts the script
  in the environment \<open>post_install_env\<close>: the file system it leaves is the one that the
  script, started so, leaves.
\<close>

lemma cmd_post_install_spawn:
  assumes "find_dir a sys (files s) ''scripts'' = Inr (Some sdir)"
    and "exists (files s) (joinpath sdir ''wallpaper_times.sh'')"
    and "read_config a sys (files s) = Inr cfg"
  shows "files (snd (cmd_post_install a sys s))
           = snd (spawn sys [''bash'', joinpath sdir ''wallpaper_times.sh'']
                    (post_install_env a sys cfg) (files s))"
proof -
  obtain r fs' where sp: "spawn sys [''bash'', joinpath sdir ''wallpaper_times.sh'']
                            (post_install_env a sys cfg) (files s) = (r, fs')"
    by (cases "spawn sys [''bash'', joinpath sdir ''wallpaper_times.sh'']
                 (post_install_env a sys cfg) (files s)")
  show ?thesis
    using assms sp
    by (cases r) (simp_all add: cmd_post_install_def scripts_dir_def Let_def)
qed



section \<open>Changing the wallpaper\<close>

lemma run_spawn:
  "spawn sys cmd (environ sys) (files s) = (r, fs')
   \<Longrightarrow> run sys cmd s = (r, s\<lparr>files := fs', calls := calls s @ [cmd]\<rparr>)"
  by (simp add: run_def)

lemma run_or_die_calls:
  "calls (snd (run_or_die sys cmd s)) = calls s @ [cmd]"
  by (cases "spawn sys cmd (environ sys) (files s)")
     (auto simp: run_or_die_def run_def Let_def split: spawned.splits)

lemma run_or_die_ok:
  "spawn sys cmd (environ sys) (files s) = (Ran res, fs') \<Longrightarrow> returncode res = 0
   \<Longrightarrow> run_or_die sys cmd s
       = (Inr (strip (stdout res)), s\<lparr>files := fs', calls := calls s @ [cmd]\<rparr>)"
  by (simp add: run_or_die_def run_spawn)

text \<open>
  C1. With mode \<open>auto\<close> and \<open>wallpaper_times.sh\<close> present in the resolved scripts
  directory, that script is the one command started, whatever else the directory holds;
  when it exits with zero the command prints the confirmation of an automatic change and
  returns 0.
\<close>

theorem auto_unified_delegate_alone:
  "find_dir a sys (files s) ''scripts'' = Inr (Some sdir)
   \<Longrightarrow> exists (files s) (joinpath sdir ''wallpaper_times.sh'')
   \<Longrightarrow> spawn sys [joinpath sdir ''wallpaper_times.sh''] (environ sys) (files s) = (r, fs')
   \<Longrightarrow> calls (snd (main a sys (BackgroundChange ''auto'') s))
         = calls s @ [ [joinpath sdir ''wallpaper_times.sh''] ]
       \<and> (\<forall>res. r = Ran res \<and> returncode res = 0 \<longrightarrow>
            main a sys (BackgroundChange ''auto'') s
              = (0, s\<lparr>files := fs', out := out s @ [WallpaperSetAuto],
                      calls := calls s @ [ [joinpath sdir ''wallpaper_times.sh''] ]\<rparr>))"
proof -
  assume sd: "find_dir a sys (files s) ''scripts'' = Inr (Some sdir)"
    and ex: "exists (files s) (joinpath sdir ''wallpaper_times.sh'')"
    and sp: "spawn sys [joinpath sdir ''wallpaper_times.sh''] (environ sys) (files s) = (r, fs')"
  let ?t = "joinpath sdir ''wallpaper_times.sh''"
  have bg: "cmd_background_change a sys ''auto'' s =
        (case run_or_die sys [?t] s of
           (Inl ex, s') \<Rightarrow> (ex, s')
         | (Inr x, s') \<Rightarrow> (Return 0, print_out WallpaperSetAuto s'))"
    using sd ex by (simp add: cmd_background_change_def scripts_dir_def)
  have c: "calls (snd (main a sys (BackgroundChange ''auto'') s)) = calls s @ [ [?t] ]"
    using run_or_die_calls [of sys "[?t]" s]
    by (cases "run_or_die sys [?t] s")
       (auto simp: main_def bg split: sum.splits outcome.splits)
  have ok: "main a sys (BackgroundChange ''auto'') s
              = (0, s\<lparr>files := fs', out := out s @ [WallpaperSetAuto], calls := calls s @ [ [?t] ]\<rparr>)"
    if "r = Ran res" "returncode res = 0" for res
    using that sp by (simp add: main_def bg run_or_die_ok print_out_def)
  from c ok show ?thesis by blast
qed

theorem auto_unified_delegate_alone_witness:
  "find_dir Riset (delegate_system ''day'') (files (initial all_scripts)) ''scripts''
     = Inr (Some ''/repo/scripts'')
   \<and> exists (files (initial all_scripts)) (joinpath ''/repo/scripts'' ''wallpaper_times.sh'')
   \<and> exists (files (initial all_scripts)) (joinpath ''/repo/scripts'' ''compute_mode.sh'')
   \<and> calls (snd (main Riset (delegate_system ''day'') (BackgroundChange ''auto'') (initial all_scripts)))
       = [ [''/repo/scripts/wallpaper_times.sh''] ]
   \<and> fst (main Riset (delegate_system ''day'') (BackgroundChange ''auto'') (initial all_scripts)) = 0
   \<and> out (snd (main Riset (delegate_system ''day'') (BackgroundChange ''auto'') (initial all_scripts)))
       = [WallpaperSetAuto]"
proof -
  have h1: "find_dir Riset (delegate_system ''day'') (files (initial all_scripts)) ''scripts''
              = Inr (Some ''/repo/scripts'')"
    by code_simp
  have h2: "exists (files (initial all_scripts)) (joinpath ''/repo/scripts'' ''wallpaper_times.sh'')"
    by code_simp
  have h2': "exists (files (initial all_scripts)) (joinpath ''/repo/scripts'' ''compute_mode.sh'')"
    by code_simp
  have h3: "spawn (delegate_system ''day'') [joinpath ''/repo/scripts'' ''wallpaper_times.sh'']
              (environ (delegate_system ''day'')) (files (initial all_scripts))
            = (Ran (Completed 0 [] []), all_scripts)"
    by (simp add: delegate_system_def delegates_def joinpath_def initial_def)
  show ?thesis
    using h1 h2 h2' auto_unified_delegate_alone [OF h1 h2 h3]
    by (simp add: initial_def joinpath_def)
qed

lemma run_mode_script_day:
  "run_mode_script sys sdir ''day'' s =
     (if \<not> exists (files s) (joinpath sdir ''wallpaper_morning.sh'')
      then (Return 2, print_err (Plain (''Expected script not found: '' @ joinpath sdir ''wallpaper_morning.sh'')) s)
      else (case run_or_die sys [joinpath sdir ''wallpaper_morning.sh''] s of
              (Inl ex, s') \<Rightarrow> (ex, s')
            | (Inr x, s') \<Rightarrow> (Return 0, print_out (WallpaperSet ''day'') s')))"
  by (simp add: run_mode_script_def)

lemma run_mode_script_night:
  "run_mode_script sys sdir ''night'' s =
     (if \<not> exists (files s) (joinpath sdir ''wallpaper_evening.sh'')
      then (Return 2, print_err (Plain (''Expected script not found: '' @ joinpath sdir ''wallpaper_evening.sh'')) s)
      else (case run_or_die sys [joinpath sdir ''wallpaper_evening.sh''] s of
              (Inl ex, s') \<Rightarrow> (ex, s')
            | (Inr x, s') \<Rightarrow> (Return 0, print_out (WallpaperSet ''night'') s')))"
  by (simp add: run_mode_script_def)

lemma main_background_change:
  "mode = ''day'' \<or> mode = ''night'' \<or> mode = ''auto'' \<Longrightarrow>
   main a sys (BackgroundChange mode) s =
     (case cmd_background_change a sys mode s of
        (Return n, s') \<Rightarrow> (n, s')
      | (SystemExit n, s') \<Rightarrow> (n, s')
      | (Raised e, s') \<Rightarrow> (1, print_err (Plain (''Error: '' @ e)) s'))"
  by (auto simp: main_def)

lemma run_mode_script_known:
  assumes "mode = ''day'' \<or> mode = ''night''"
  shows "run_mode_script sys sdir mode s =
     (if \<not> exists (files s) (mode_script sdir mode)
      then (Return 2, print_err (Plain (''Expected script not found: '' @ mode_script sdir mode)) s)
      else (case run_or_die sys [mode_script sdir mode] s of
              (Inl ex, s') \<Rightarrow> (ex, s')
            | (Inr x, s') \<Rightarrow> (Return 0, print_out (WallpaperSet mode) s')))"
  using assms by (auto simp: run_mode_script_day run_mode_script_night mode_script_def)

text \<open>
  C2, as amended. With mode \<open>auto\<close>, no \<open>wallpaper_times.sh\<close>, and a \<open>compute_mode.sh\<close>
  that exits with zero, the resolved mode is the trimmed, lower-cased output of
  \<open>compute_mode.sh\<close>. For any text other than \<open>day\<close> and \<open>night\<close> the command prints the
  invalid-mode diagnostic and returns 2, having started no further command. For \<open>day\<close>
  or \<open>night\<close> the script of that mode is selected: when it does not exist the command
  prints that the script was not found and returns 2 without starting it; when it exists
  it is started next, and its exit with zero gives the confirmation naming the mode and
  the return code 0.
\<close>

theorem auto_decision_delegate:
  assumes sd: "find_dir a sys (files s) ''scripts'' = Inr (Some sdir)"
    and nt: "\<not> exists (files s) (joinpath sdir ''wallpaper_times.sh'')"
    and ex: "exists (files s) (joinpath sdir ''compute_mode.sh'')"
    and sp: "spawn sys [joinpath sdir ''compute_mode.sh''] (environ sys) (files s) = (Ran res, fs1)"
    and rc: "returncode res = 0"
    and md: "mode = lower (strip (strip (stdout res)))"
    and s1: "s1 = s\<lparr>files := fs1, calls := calls s @ [ [joinpath sdir ''compute_mode.sh''] ]\<rparr>"
  shows "(mode \<noteq> ''day'' \<and> mode \<noteq> ''night'' \<longrightarrow>
            main a sys (BackgroundChange ''auto'') s
              = (2, print_err (Plain (''Invalid mode from compute_mode.sh: '' @ mode)) s1))
       \<and> ((mode = ''day'' \<or> mode = ''night'') \<and> \<not> exists fs1 (mode_script sdir mode) \<longrightarrow>
            main a sys (BackgroundChange ''auto'') s
              = (2, print_err (Plain (''Expected script not found: '' @ mode_script sdir mode)) s1))
       \<and> ((mode = ''day'' \<or> mode = ''night'') \<and> exists fs1 (mode_script sdir mode) \<longrightarrow>
            calls (snd (main a sys (BackgroundChange ''auto'') s))
              = calls s @ [ [joinpath sdir ''compute_mode.sh''], [mode_script sdir mode] ]
            \<and> (\<forall>res2 fs2. spawn sys [mode_script sdir mode] (environ sys) fs1 = (Ran res2, fs2)
                   \<and> returncode res2 = 0 \<longrightarrow>
                 main a sys (BackgroundChange ''auto'') s
                   = (0, print_out (WallpaperSet mode)
                           (s1\<lparr>files := fs2, calls := calls s1 @ [ [mode_script sdir mode] ]\<rparr>))))"
proof -
  let ?c = "joinpath sdir ''compute_mode.sh''"
  have rod: "run_or_die sys [?c] s = (Inr (strip (stdout res)), s1)"
    using sp rc s1 by (simp add: run_or_die_ok)
  have bg: "cmd_background_change a sys ''auto'' s =
      (if mode \<noteq> ''day'' \<and> mode \<noteq> ''night''
       then (Return 2, print_err (Plain (''Invalid mode from compute_mode.sh: '' @ mode)) s1)
       else run_mode_script sys sdir mode s1)"
    using sd nt ex md by (simp add: cmd_background_change_def scripts_dir_def rod Let_def)
  have f1: "files s1 = fs1" and c1: "calls s1 = calls s @ [ [?c] ]"
    using s1 by simp_all
  have A: "main a sys (BackgroundChange ''auto'') s
              = (2, print_err (Plain (''Invalid mode from compute_mode.sh: '' @ mode)) s1)"
    if "mode \<noteq> ''day'' \<and> mode \<noteq> ''night''"
    using that by (simp add: main_background_change bg)
  have B: "main a sys (BackgroundChange ''auto'') s
              = (2, print_err (Plain (''Expected script not found: '' @ mode_script sdir mode)) s1)"
    if "mode = ''day'' \<or> mode = ''night''" "\<not> exists fs1 (mode_script sdir mode)"
    using that by (auto simp: main_background_change bg run_mode_script_known f1)
  have C: "calls (snd (main a sys (BackgroundChange ''auto'') s))
              = calls s @ [ [?c], [mode_script sdir mode] ]"
    if m: "mode = ''day'' \<or> mode = ''night''" and e: "exists fs1 (mode_script sdir mode)"
  proof -
    have "cmd_background_change a sys ''auto'' s =
            (case run_or_die sys [mode_script sdir mode] s1 of
              (Inl ex, s') \<Rightarrow> (ex, s')
            | (Inr x, s') \<Rightarrow> (Return 0, print_out (WallpaperSet mode) s'))"
      using m e by (auto simp: bg run_mode_script_known f1)
    then show ?thesis
      using run_or_die_calls [of sys "[mode_script sdir mode]" s1]
      by (cases "run_or_die sys [mode_script sdir mode] s1")
         (auto simp: main_background_change c1 split: sum.splits outcome.splits)
  qed
  have D: "main a sys (BackgroundChange ''auto'') s
                   = (0, print_out (WallpaperSet mode)
                           (s1\<lparr>files := fs2, calls := calls s1 @ [ [mode_script sdir mode] ]\<rparr>))"
    if m: "mode = ''day'' \<or> mode = ''night''" and e: "exists fs1 (mode_script sdir mode)"
      and sp2: "spawn sys [mode_script sdir mode] (environ sys) fs1 = (Ran res2, fs2)"
      and rc2: "returncode res2 = 0" for res2 fs2
  proof -
    have "run_or_die sys [mode_script sdir mode] s1
            = (Inr (strip (stdout res2)), s1\<lparr>files := fs2, calls := calls s1 @ [ [mode_script sdir mode] ]\<rparr>)"
      using sp2 rc2 f1 by (simp add: run_or_die_ok)
    then show ?thesis
      using m e by (auto simp: main_background_change bg run_mode_script_known f1)
  qed
  from A B C D show ?thesis by blast
qed

theorem auto_decision_delegate_witness:
  "lower (strip (strip (''NIGHT'' @ [LF]))) = ''night''
   \<and> exists split_scripts (mode_script ''/repo/scripts'' ''night'')
   \<and> calls (snd (main Riset (delegate_system (''NIGHT'' @ [LF])) (BackgroundChange ''auto'')
                 (initial split_scripts)))
       = [ [''/repo/scripts/compute_mode.sh''], [''/repo/scripts/wallpaper_evening.sh''] ]
   \<and> fst (main Riset (delegate_system (''NIGHT'' @ [LF])) (BackgroundChange ''auto'')
            (initial split_scripts)) = 0
   \<and> out (snd (main Riset (delegate_system (''NIGHT'' @ [LF])) (BackgroundChange ''auto'')
               (initial split_scripts)))
       = [WallpaperSet ''night'']
   \<and> lower (strip (strip ''dusk'')) = ''dusk''
   \<and> fst (main Riset (delegate_system ''dusk'') (BackgroundChange ''auto'') (initial split_scripts)) = 2
   \<and> calls (snd (main Riset (delegate_system ''dusk'') (BackgroundChange ''auto'')
                 (initial split_scripts)))
       = [ [''/repo/scripts/compute_mode.sh''] ]
   \<and> err (snd (main Riset (delegate_system ''dusk'') (BackgroundChange ''auto'')
               (initial split_scripts)))
       = [Plain ''Invalid mode from compute_mode.sh: dusk'']"
proof -
  let ?sys = "delegate_system (''NIGHT'' @ [LF])"
  let ?dusk = "delegate_system ''dusk''"
  let ?s = "initial split_scripts"
  have h1: "find_dir Riset ?sys (files ?s) ''scripts'' = Inr (Some ''/repo/scripts'')"
    by code_simp
  have h2: "\<not> exists (files ?s) (joinpath ''/repo/scripts'' ''wallpaper_times.sh'')"
    by code_simp
  have h3: "exists (files ?s) (joinpath ''/repo/scripts'' ''compute_mode.sh'')"
    by code_simp
  have h4: "spawn ?sys [joinpath ''/repo/scripts'' ''compute_mode.sh''] (environ ?sys) (files ?s)
            = (Ran (Completed 0 (''NIGHT'' @ [LF]) []), split_scripts)"
    by (simp add: delegate_system_def delegates_def joinpath_def initial_def)
  have h5: "returncode (Completed 0 (''NIGHT'' @ [LF]) []) = 0"
    by simp
  have h6: "''night'' = lower (strip (strip (stdout (Completed 0 (''NIGHT'' @ [LF]) []))))"
    by code_simp
  have m: "lower (strip (strip (''NIGHT'' @ [LF]))) = ''night''"
    by code_simp
  have e: "exists split_scripts (mode_script ''/repo/scripts'' ''night'')"
    by code_simp
  have sp2: "spawn ?sys [mode_script ''/repo/scripts'' ''night''] (environ ?sys) split_scripts
            = (Ran (Completed 0 [] []), split_scripts)"
    by (simp add: delegate_system_def delegates_def joinpath_def mode_script_def)
  have night: "calls (snd (main Riset ?sys (BackgroundChange ''auto'') ?s))
       = [ [''/repo/scripts/compute_mode.sh''], [''/repo/scripts/wallpaper_evening.sh''] ]
     \<and> fst (main Riset ?sys (BackgroundChange ''auto'') ?s) = 0
     \<and> out (snd (main Riset ?sys (BackgroundChange ''auto'') ?s)) = [WallpaperSet ''night'']"
    using e sp2 auto_decision_delegate [OF h1 h2 h3 h4 h5 h6 refl]
    by (simp add: initial_def joinpath_def mode_script_def)
  have d1: "find_dir Riset ?dusk (files ?s) ''scripts'' = Inr (Some ''/repo/scripts'')"
    by code_simp
  have d4: "spawn ?dusk [joinpath ''/repo/scripts'' ''compute_mode.sh''] (environ ?dusk) (files ?s)
            = (Ran (Completed 0 ''dusk'' []), split_scripts)"
    by (simp add: delegate_system_def delegates_def joinpath_def initial_def)
  have d5: "returncode (Completed 0 ''dusk'' []) = 0"
    by simp
  have d6: "''dusk'' = lower (strip (strip (stdout (Completed 0 ''dusk'' []))))"
    by code_simp
  have dm: "lower (strip (strip ''dusk'')) = ''dusk''"
    by code_simp
  have dusk: "fst (main Riset ?dusk (BackgroundChange ''auto'') ?s) = 2
     \<and> calls (snd (main Riset ?dusk (BackgroundChange ''auto'') ?s))
         = [ [''/repo/scripts/compute_mode.sh''] ]
     \<and> err (snd (main Riset ?dusk (BackgroundChange ''auto'') ?s))
         = [Plain ''Invalid mode from compute_mode.sh: dusk'']"
    using auto_decision_delegate [OF d1 h2 h3 d4 d5 d6 refl]
    by (simp add: initial_def joinpath_def)
  from m e night dm dusk show ?thesis by simp
qed

text \<open>
  C2 as the claim words it fails where the script of the resolved mode is missing:
  \<open>compute_mode.sh\<close> answers \<open>day\<close>, and the command returns 2 with
  \<open>compute_mode.sh\<close> the only command started.
\<close>

theorem auto_decision_script_absent_counterexample:
  "lower (strip (strip ''day'')) = ''day''
   \<and> fst (main Riset (delegate_system ''day'') (BackgroundChange ''auto'') (initial decision_only)) = 2
   \<and> calls (snd (main Riset (delegate_system ''day'') (BackgroundChange ''auto'') (initial decision_only)))
       = [ [''/repo/scripts/compute_mode.sh''] ]
   \<and> err (snd (main Riset (delegate_system ''day'') (BackgroundChange ''auto'') (initial decision_only)))
       = [Plain ''Expected script not found: /repo/scripts/wallpaper_morning.sh'']"
  by code_simp

section \<open>A missing scripts directory\<close>

lemma env_dir_key_scripts: "env_dir_key a ''scripts'' = ENV_PREFIX a @ ''_SCRIPTS_DIR''"
  by (cases a; code_simp)

lemma scripts_dir_missing:
  "find_dir a sys fs ''scripts'' = Inr None \<Longrightarrow> scripts_dir a sys fs = Inl (scripts_not_found a)"
  by (simp add: scripts_dir_def)

lemma scripts_dir_raises:
  "find_dir a sys fs ''scripts'' = Inl e \<Longrightarrow> scripts_dir a sys fs = Inl e"
  by (simp add: scripts_dir_def)

lemma needs_scripts_raised:
  "needs_scripts c \<Longrightarrow> scripts_dir a sys (files s) = Inl e \<Longrightarrow> dispatch a sys c s = (Raised e, s)"
  by (cases c)
     (simp_all add: needs_scripts_def cmd_background_change_def cmd_morning_def
        cmd_evening_def run_fixed_script_def cmd_post_install_def)

text \<open>
  C4, as amended. For every command that needs the scripts directory
  (\<open>background_change\<close>, \<open>morning\<close>, \<open>evening\<close>, \<open>post_install\<close>): if the search completes
  and no candidate scripts directory exists, the command prints one diagnostic, \<open>Error:\<close>
  followed by a message that names the override variable to set, and the exit code is 1,
  the code of the catch-all handler in \<open>main\<close>. If the search itself raises (the tilde of
  the override cannot be expanded, or an existence check fails), the command prints
  \<open>Error:\<close> followed by the text of that error, and the exit code is 1 as well.
\<close>

theorem scripts_dir_missing_exit:
  assumes "needs_scripts c" and "registered a c"
  shows "(find_dir a sys (files s) ''scripts'' = Inr None \<longrightarrow>
            main a sys c s = (1, print_err (Plain (''Error: '' @ scripts_not_found a)) s))
         \<and> sublist (env_dir_key a ''scripts'') (scripts_not_found a)
         \<and> (\<forall>e. find_dir a sys (files s) ''scripts'' = Inl e \<longrightarrow>
               main a sys c s = (1, print_err (Plain (''Error: '' @ e)) s))"
proof -
  have none: "main a sys c s = (1, print_err (Plain (''Error: '' @ scripts_not_found a)) s)"
    if "find_dir a sys (files s) ''scripts'' = Inr None"
    using assms needs_scripts_raised [OF assms(1) scripts_dir_missing [OF that]]
    by (simp add: main_def)
  have raised: "main a sys c s = (1, print_err (Plain (''Error: '' @ e)) s)"
    if "find_dir a sys (files s) ''scripts'' = Inl e" for e
    using assms needs_scripts_raised [OF assms(1) scripts_dir_raises [OF that]]
    by (simp add: main_def)
  have "sublist (ENV_PREFIX a @ ''_SCRIPTS_DIR'') (scripts_not_found a)"
    unfolding scripts_not_found_def sublist_def
    by (rule exI [of _ "''Could not find '' @ sq @ ''scripts'' @ sq @ '' directory. '' @ ''Set ENV '' @ sq"],
        rule exI [of _ "sq @ '' or install scripts via Homebrew pkgshare.''"]) simp
  with none raised show ?thesis
    by (simp add: env_dir_key_scripts)
qed

theorem scripts_dir_missing_exit_witness:
  "needs_scripts Morning \<and> registered Riset Morning
   \<and> find_dir Riset (sample_system Map.empty) (files (initial Map.empty)) ''scripts'' = Inr None
   \<and> fst (main Riset (sample_system Map.empty) Morning (initial Map.empty)) = 1
   \<and> sublist ''RISET_SCRIPTS_DIR'' (scripts_not_found Riset)
   \<and> find_dir Riset (sample_system [''RISET_SCRIPTS_DIR'' \<mapsto> ''~nosuchuser/x''])
        (files (initial Map.empty)) ''scripts''
       = Inl ''Could not determine home directory.''
   \<and> main Riset (sample_system [''RISET_SCRIPTS_DIR'' \<mapsto> ''~nosuchuser/x'']) Morning
        (initial Map.empty)
       = (1, print_err (Plain ''Error: Could not determine home directory.'') (initial Map.empty))"
proof -
  have h1: "find_dir Riset (sample_system Map.empty) (files (initial Map.empty)) ''scripts''
              = Inr None"
    by code_simp
  have h2: "needs_scripts Morning"
    by (simp add: needs_scripts_def)
  have h3: "registered Riset Morning"
    by simp
  have h4: "find_dir Riset (sample_system [''RISET_SCRIPTS_DIR'' \<mapsto> ''~nosuchuser/x''])
              (files (initial Map.empty)) ''scripts''
            = Inl ''Could not determine home directory.''"
    by code_simp
  show ?thesis
    using h1 h2 h3 h4
      scripts_dir_missing_exit [OF h2 h3, of "sample_system Map.empty" "initial Map.empty"]
      scripts_dir_missing_exit [OF h2 h3,
        of "sample_system [''RISET_SCRIPTS_DIR'' \<mapsto> ''~nosuchuser/x'']" "initial Map.empty"]
    by (simp add: env_dir_key_scripts)
qed

text \<open>
  C4 as the claim words it fails: with no scripts directory anywhere,
  \<open>background_change\<close> ends with the exit code 1, not 2; and where the override names the
  home directory of an unknown user, the one diagnostic carries no hint.
\<close>

theorem scripts_dir_missing_exit_counterexample:
  "find_dir Riset (sample_system Map.empty) Map.empty ''scripts'' = Inr None
   \<and> fst (main Riset (sample_system Map.empty) (BackgroundChange ''auto'') (initial Map.empty)) = 1
   \<and> fst (main Riset (sample_system Map.empty) (BackgroundChange ''auto'') (initial Map.empty)) \<noteq> 2
   \<and> err (snd (main Riset (sample_system [''RISET_SCRIPTS_DIR'' \<mapsto> ''~nosuchuser/x''])
                (BackgroundChange ''auto'') (initial Map.empty)))
       = [Plain ''Error: Could not determine home directory.'']"
  by code_simp

section \<open>Replacing a wallpaper image\<close>

text \<open>
  C10, as amended. With the assets directory found, the commands \<open>day\<close> and \<open>night\<close>
  leave the file system as it was, so that the destination is neither created nor
  changed, and start no command, in each of these cases: the tilde of the source path is
  expanded and the existence check reports that the path does not exist, where the
  command prints that the image was not found and returns 2; the tilde of the source
  path cannot be expanded, where the command prints \<open>Error:\<close> with the text of that error
  and returns 1; the existence check itself fails, where the command prints \<open>Error:\<close>
  with the text of that error and returns 1.
\<close>

theorem replace_missing_source:
  assumes "assets_dir Riset sys (files s) = Inr (Some adir)"
    and "c = DayImage src \<or> c = NightImage src"
  shows "(\<forall>p. expanduser sys (PathOf src) = Inr p \<and> path_exists sys (files s) p = Inr False \<longrightarrow>
            main Riset sys c s = (2, print_err (Plain (''Image not found: '' @ p)) s))
       \<and> (\<forall>e. expanduser sys (PathOf src) = Inl e \<longrightarrow>
            main Riset sys c s = (1, print_err (Plain (''Error: '' @ e)) s))
       \<and> (\<forall>p e. expanduser sys (PathOf src) = Inr p \<and> path_exists sys (files s) p = Inl e \<longrightarrow>
            main Riset sys c s = (1, print_err (Plain (''Error: '' @ e)) s))
       \<and> ((\<exists>p. expanduser sys (PathOf src) = Inr p \<and> path_exists sys (files s) p = Inr False)
           \<or> (\<exists>e. expanduser sys (PathOf src) = Inl e)
           \<or> (\<exists>p e. expanduser sys (PathOf src) = Inr p \<and> path_exists sys (files s) p = Inl e)
          \<longrightarrow> files (snd (main Riset sys c s)) = files s
              \<and> calls (snd (main Riset sys c s)) = calls s)"
proof -
  have m: "main Riset sys c s =
             (case replace_wallpaper_image sys src (if c = DayImage src then DAY_ASSET else NIGHT_ASSET)
                     (if c = DayImage src then ''Day'' else ''Night'') s of
                (Return n, s') \<Rightarrow> (n, s')
              | (SystemExit n, s') \<Rightarrow> (n, s')
              | (Raised e, s') \<Rightarrow> (1, print_err (Plain (''Error: '' @ e)) s'))"
    using assms(2) by (auto simp: main_def cmd_day_image_def cmd_night_image_def)
  have A: "main Riset sys c s = (2, print_err (Plain (''Image not found: '' @ p)) s)"
    if "expanduser sys (PathOf src) = Inr p" "path_exists sys (files s) p = Inr False" for p
    using assms(1) that by (simp add: m replace_wallpaper_image_def)
  have B: "main Riset sys c s = (1, print_err (Plain (''Error: '' @ e)) s)"
    if "expanduser sys (PathOf src) = Inl e" for e
    using assms(1) that by (simp add: m replace_wallpaper_image_def)
  have C: "main Riset sys c s = (1, print_err (Plain (''Error: '' @ e)) s)"
    if "expanduser sys (PathOf src) = Inr p" "path_exists sys (files s) p = Inl e" for p e
    using assms(1) that by (simp add: m replace_wallpaper_image_def)
  have D: "files (snd (main Riset sys c s)) = files s \<and> calls (snd (main Riset sys c s)) = calls s"
    if "(\<exists>p. expanduser sys (PathOf src) = Inr p \<and> path_exists sys (files s) p = Inr False)
           \<or> (\<exists>e. expanduser sys (PathOf src) = Inl e)
           \<or> (\<exists>p e. expanduser sys (PathOf src) = Inr p \<and> path_exists sys (files s) p = Inl e)"
    using that A B C by (elim disjE exE conjE) simp_all
  from A B C D show ?thesis by blast
qed

theorem replace_missing_source_witness:
  "assets_dir Riset (sample_system Map.empty) (files (initial assets_only))
     = Inr (Some ''/repo/assets'')
   \<and> expanduser (sample_system Map.empty) (PathOf ''/tmp/missing.jpg'') = Inr ''/tmp/missing.jpg''
   \<and> path_exists (sample_system Map.empty) (files (initial assets_only)) ''/tmp/missing.jpg''
       = Inr False
   \<and> fst (main Riset (sample_system Map.empty) (DayImage ''/tmp/missing.jpg'') (initial assets_only)) = 2
   \<and> files (snd (main Riset (sample_system Map.empty) (DayImage ''/tmp/missing.jpg'')
                  (initial assets_only))) ''/repo/assets/morning.jpg''
       = Some (File ''old'')
   \<and> err (snd (main Riset (sample_system Map.empty) (DayImage ''/tmp/missing.jpg'')
                (initial assets_only)))
       = [Plain ''Image not found: /tmp/missing.jpg'']
   \<and> expanduser (sample_system Map.empty) (PathOf ''~nosuchuser/pic.jpg'')
       = Inl ''Could not determine home directory.''
   \<and> main Riset (sample_system Map.empty) (NightImage ''~nosuchuser/pic.jpg'') (initial assets_only)
       = (1, print_err (Plain ''Error: Could not determine home directory.'') (initial assets_only))"
proof -
  let ?sys = "sample_system Map.empty"
  let ?s = "initial assets_only"
  have h1: "assets_dir Riset ?sys (files ?s) = Inr (Some ''/repo/assets'')"
    by code_simp
  have h2: "expanduser ?sys (PathOf ''/tmp/missing.jpg'') = Inr ''/tmp/missing.jpg''"
    by code_simp
  have h3: "path_exists ?sys (files ?s) ''/tmp/missing.jpg'' = Inr False"
    by code_simp
  have h4: "expanduser ?sys (PathOf ''~nosuchuser/pic.jpg'') = Inl ''Could not determine home directory.''"
    by code_simp
  have d: "DayImage ''/tmp/missing.jpg'' = DayImage ''/tmp/missing.jpg''
              \<or> DayImage ''/tmp/missing.jpg'' = NightImage ''/tmp/missing.jpg''"
    by simp
  have n: "NightImage ''~nosuchuser/pic.jpg'' = DayImage ''~nosuchuser/pic.jpg''
              \<or> NightImage ''~nosuchuser/pic.jpg'' = NightImage ''~nosuchuser/pic.jpg''"
    by simp
  have day: "main Riset ?sys (DayImage ''/tmp/missing.jpg'') ?s
               = (2, print_err (Plain (''Image not found: '' @ ''/tmp/missing.jpg'')) ?s)"
    using replace_missing_source [OF h1 d] h2 h3 by blast
  have night: "main Riset ?sys (NightImage ''~nosuchuser/pic.jpg'') ?s
               = (1, print_err (Plain (''Error: '' @ ''Could not determine home directory.'')) ?s)"
    using replace_missing_source [OF h1 n] h4 by blast
  have day': "fst (main Riset ?sys (DayImage ''/tmp/missing.jpg'') ?s) = 2"
    "files (snd (main Riset ?sys (DayImage ''/tmp/missing.jpg'') ?s)) ''/repo/assets/morning.jpg''
       = Some (File ''old'')"
    "err (snd (main Riset ?sys (DayImage ''/tmp/missing.jpg'') ?s))
       = [Plain ''Image not found: /tmp/missing.jpg'']"
    unfolding day by (simp_all add: initial_def assets_only_def)
  from h1 h2 h3 h4 day' night show ?thesis
    by simp
qed

text \<open>
  C10 as the claim words it fails for a source path that does not exist and names the
  home directory of an unknown user: the command returns 1, not 2, and its diagnostic
  is that of the catch-all handler. The destination is unchanged there too.
\<close>

theorem replace_unknown_home_counterexample:
  "fst (main Riset (sample_system Map.empty) (DayImage ''~nosuchuser/pic.jpg'') (initial assets_only))
     = 1
   \<and> err (snd (main Riset (sample_system Map.empty) (DayImage ''~nosuchuser/pic.jpg'')
                (initial assets_only)))
       = [Plain ''Error: Could not determine home directory.'']
   \<and> files (initial assets_only) ''~nosuchuser/pic.jpg'' = None
   \<and> files (snd (main Riset (sample_system Map.empty) (DayImage ''~nosuchuser/pic.jpg'')
                  (initial assets_only))) ''/repo/assets/morning.jpg''
       = Some (File ''old'')"
  by code_simp

section \<open>Cleanup\<close>

lemma bootout_error_None: "(bootout_error name res = None) = harmless res"
  by (auto simp: bootout_error_def harmless_def indicates_absent_def truthy_def Let_def)

lemma bootout_error_Some:
  "\<not> harmless res \<Longrightarrow>
   bootout_error name res = Some (''launchctl bootout '' @ name @ '': '' @ bootout_message res)"
  by (auto simp: bootout_error_def harmless_def indicates_absent_def truthy_def Let_def)

lemma files_after_calls:
  "s\<lparr>calls := c, files := f\<rparr> = s\<lparr>files := f, calls := c\<rparr>"
  by (cases s) simp

lemma cleanup_loop_step:
  "spawn sys (bootout_cmd sys p) (environ sys) (files s) = (Ran res, fs1) \<Longrightarrow>
   cleanup_loop sys (p # ps) errs s =
     cleanup_loop sys ps (errs @ step_errors sys fs1 p res)
       (s\<lparr>files := after_unlink sys fs1 p, calls := calls s @ [bootout_cmd sys p]\<rparr>)"
  by (cases "unlink sys fs1 p"; cases "bootout_error (basename p) res")
     (simp_all add: run_def step_errors_def after_unlink_def Let_def files_after_calls)

lemma cleanup_loop_spawn_error:
  "spawn sys (bootout_cmd sys p) (environ sys) (files s) = (SpawnError e, fs1) \<Longrightarrow>
   cleanup_loop sys (p # ps) errs s
     = (Inl e, s\<lparr>files := fs1, calls := calls s @ [bootout_cmd sys p]\<rparr>)"
  by (simp add: run_def)

lemma step_errors_not_harmless: "\<not> harmless res \<Longrightarrow> step_errors sys fs p res \<noteq> []"
  by (simp add: step_errors_def bootout_error_Some)

lemma main_cleanup_exit:
  "fst (main Riset sys Cleanup s) =
     (case fst (cleanup_loop sys (launch_agent_paths sys) [] s) of
        Inl e \<Rightarrow> 1
      | Inr errors \<Rightarrow> if errors \<noteq> [] then 1 else 0)"
  by (cases "cleanup_loop sys (launch_agent_paths sys) [] s")
     (auto simp: main_def cmd_cleanup_def split: sum.splits)

text \<open>
  C6, as amended. A bootout is harmless when it exits with 0 or with 36, when it leaves
  no message at all (error text and output both empty once trimmed), or when its message
  holds \<open>No such process\<close> or \<open>No such file or directory\<close>; every other bootout is
  recorded as an error naming the descriptor and the message. If the bootout of either
  descriptor is not harmless, \<open>cleanup\<close> returns 1.
\<close>

theorem bootout_classification:
  assumes ps: "launch_agent_paths sys = [p1, p2]"
    and sp1: "spawn sys (bootout_cmd sys p1) (environ sys) (files s) = (Ran res1, fs1)"
    and sp2: "spawn sys (bootout_cmd sys p2) (environ sys) (after_unlink sys fs1 p1) = (r2, fs2)"
  shows "(bootout_error name res = None) = harmless res
       \<and> (\<not> harmless res \<longrightarrow>
            bootout_error name res
              = Some (''launchctl bootout '' @ name @ '': '' @ bootout_message res))
       \<and> (\<not> harmless res1 \<or> (\<exists>res2. r2 = Ran res2 \<and> \<not> harmless res2)
            \<longrightarrow> fst (main Riset sys Cleanup s) = 1)"
proof -
  let ?s1 = "s\<lparr>files := after_unlink sys fs1 p1, calls := calls s @ [bootout_cmd sys p1]\<rparr>"
  have first: "cleanup_loop sys [p1, p2] [] s
                 = cleanup_loop sys [p2] (step_errors sys fs1 p1 res1) ?s1"
    using cleanup_loop_step [OF sp1, of "[p2]" "[]"] by simp
  have m: "fst (main Riset sys Cleanup s) = 1"
    if bad: "\<not> harmless res1 \<or> (\<exists>res2. r2 = Ran res2 \<and> \<not> harmless res2)"
  proof (cases r2)
    case (SpawnError e)
    with sp2 have "cleanup_loop sys [p2] (step_errors sys fs1 p1 res1) ?s1
             = (Inl e, ?s1\<lparr>files := fs2, calls := calls ?s1 @ [bootout_cmd sys p2]\<rparr>)"
      by (intro cleanup_loop_spawn_error) simp
    then show ?thesis
      by (simp add: main_cleanup_exit ps first del: cleanup_loop.simps)
  next
    case (Ran res2)
    with sp2 have "cleanup_loop sys [p2] (step_errors sys fs1 p1 res1) ?s1
             = cleanup_loop sys [] (step_errors sys fs1 p1 res1 @ step_errors sys fs2 p2 res2)
                 (?s1\<lparr>files := after_unlink sys fs2 p2, calls := calls ?s1 @ [bootout_cmd sys p2]\<rparr>)"
      by (intro cleanup_loop_step) simp
    moreover from bad Ran
    have "step_errors sys fs1 p1 res1 \<noteq> [] \<or> step_errors sys fs2 p2 res2 \<noteq> []"
      using step_errors_not_harmless by blast
    ultimately show ?thesis
      by (auto simp: main_cleanup_exit ps first simp del: cleanup_loop.simps(2))
  qed
  show ?thesis
    using m by (simp add: bootout_error_None bootout_error_Some)
qed

theorem bootout_classification_witness:
  "launch_agent_paths (launchctl_says (Completed 5 [] ''Boot-out failed: 5: Input/output error''))
     = [sunrise_plist, sunset_plist]
   \<and> \<not> harmless (Completed 5 [] ''Boot-out failed: 5: Input/output error'')
   \<and> bootout_error ''com.riset.sunrise.plist'' (Completed 5 [] ''Boot-out failed: 5: Input/output error'')
       = Some ''launchctl bootout com.riset.sunrise.plist: Boot-out failed: 5: Input/output error''
   \<and> fst (main Riset (launchctl_says (Completed 5 [] ''Boot-out failed: 5: Input/output error''))
            Cleanup (initial Map.empty)) = 1"
proof -
  let ?res = "Completed 5 [] ''Boot-out failed: 5: Input/output error''"
  let ?sys = "launchctl_says ?res"
  have ps: "launch_agent_paths ?sys = [sunrise_plist, sunset_plist]"
    by code_simp
  have sp1: "spawn ?sys (bootout_cmd ?sys sunrise_plist) (environ ?sys) (files (initial Map.empty))
               = (Ran ?res, Map.empty)"
    by (simp add: launchctl_says_def initial_def)
  have sp2: "spawn ?sys (bootout_cmd ?sys sunset_plist) (environ ?sys)
               (after_unlink ?sys Map.empty sunrise_plist)
               = (Ran ?res, after_unlink ?sys Map.empty sunrise_plist)"
    by (simp add: launchctl_says_def)
  have nh: "\<not> harmless ?res"
    by code_simp
  have msg: "bootout_message ?res = ''Boot-out failed: 5: Input/output error''"
    by code_simp
  show ?thesis
    using ps nh msg
      bootout_classification [OF ps sp1 sp2, of "''com.riset.sunrise.plist''" ?res]
    by simp
qed

text \<open>
  C6 as the claim words it fails for a bootout that exits with 1 and prints nothing:
  the exit code is neither 0 nor 36 and the message indicates no absence, yet no error is
  recorded and \<open>cleanup\<close> returns 0.
\<close>

theorem bootout_silent_failure_counterexample:
  "returncode (Completed 1 [] []) \<noteq> 0 \<and> returncode (Completed 1 [] []) \<noteq> 36
   \<and> \<not> indicates_absent (bootout_message (Completed 1 [] []))
   \<and> bootout_error ''com.riset.sunrise.plist'' (Completed 1 [] []) = None
   \<and> fst (main Riset (launchctl_says (Completed 1 [] [])) Cleanup (initial Map.empty)) = 0
   \<and> err (snd (main Riset (launchctl_says (Completed 1 [] [])) Cleanup (initial Map.empty))) = []"
  by code_simp







section \<open>The configuration file\<close>

subsection \<open>strip\<close>



subsection \<open>splitlines\<close>











subsection \<open>The lines of a configuration\<close>






















end
